theory Spec2Isabelle
  imports Complex_Main "HOL-Library.Sublist"
begin

section \<open>Python values, exceptions and string operations\<close>

text \<open>
  The scraper is a Python program driving a browser through Selenium. Exceptions are
  values: a computation that may raise has type \<open>exn + 'a\<close>, with \<open>Inl\<close> the
  exception raised and \<open>Inr\<close> the value returned. Every exception class below is a
  subclass of Python's \<open>Exception\<close>, so a clause \<open>except Exception\<close> catches each
  of them. Python strings are modelled as \<open>string\<close>, one \<open>char\<close> per code point
  below 256.
\<close>

datatype exn =
    TimeoutException
  | NoSuchElementException
  | StaleElementReferenceException
  | WebDriverException
  | AttributeError
  | TypeError
  | ValueError
  | ZeroDivisionError

text \<open>\<open>str.isspace\<close> on one code point below 256.\<close>

definition isspace :: "char \<Rightarrow> bool" where
  "isspace c = (of_char c \<in> {9, 10, 11, 12, 13, 28, 29, 30, 31, 32, 133, 160 :: nat})"

text \<open>\<open>s.strip()\<close>: leading and trailing whitespace removed.\<close>

definition strip :: "string \<Rightarrow> string" where
  "strip s = rev (dropWhile isspace (rev (dropWhile isspace s)))"

text \<open>\<open>sub in s\<close> for strings: \<open>sub\<close> occurs in \<open>s\<close> as a contiguous run.\<close>

fun contains :: "string \<Rightarrow> string \<Rightarrow> bool" where
  "contains sub [] = (sub = [])"
| "contains sub (c # cs) = (prefix sub (c # cs) \<or> contains sub cs)"

text \<open>
  \<open>s.split(sep)\<close> for a non-empty separator, scanning from the left for
  non-overlapping occurrences; \<open>cur\<close> holds the current piece reversed. Python raises
  ValueError for an empty separator; the scraper only splits on a literal.
\<close>

function split_from :: "string \<Rightarrow> string \<Rightarrow> string \<Rightarrow> string list" where
  "split_from sep cur [] = [rev cur]"
| "split_from sep cur (c # cs) =
     (if sep \<noteq> [] \<and> prefix sep (c # cs)
      then rev cur # split_from sep [] (drop (length sep) (c # cs))
      else split_from sep (c # cur) cs)"
  by pat_completeness auto
termination
  by (relation "measure (\<lambda>(sep, cur, s). length s)") auto

definition split :: "string \<Rightarrow> string \<Rightarrow> string list" where
  "split s sep = split_from sep [] s"

text \<open>\<open>s.replace(old, "")\<close>: every non-overlapping occurrence of \<open>old\<close> removed.\<close>

function remove_all :: "string \<Rightarrow> string \<Rightarrow> string" where
  "remove_all old [] = []"
| "remove_all old (c # cs) =
     (if old \<noteq> [] \<and> prefix old (c # cs)
      then remove_all old (drop (length old) (c # cs))
      else c # remove_all old cs)"
  by pat_completeness auto
termination
  by (relation "measure (\<lambda>(old, s). length s)") auto

section \<open>urllib.parse\<close>

text \<open>
  \<open>urlparse\<close> and \<open>urljoin\<close> are library functions of CPython; they are modelled
  here on the source of \<open>urllib/parse.py\<close> (CPython 3.11). Two validations of the
  network location, which that module delegates to other modules, are parameters
  \<open>chk\<close> of the model:
  \<^item> \<open>bracketed_host_ok chk h\<close> holds when \<open>_check_bracketed_host h\<close>, which asks
  the \<open>ipaddress\<close> module, returns without raising;
  \<^item> \<open>netloc_ok chk nl\<close> holds when \<open>_checknetloc nl\<close> returns without raising
  for a network location \<open>nl\<close> that is not ASCII. That function normalises \<open>nl\<close>
  (NFKC, module \<open>unicodedata\<close>) and raises ValueError when the normal form has one
  of the characters \<open>/ ? # @ :\<close>, as it has for U+2100, whose normal form is
  \<open>a/c\<close>. For an empty or ASCII network location it returns at once.
\<close>

record netloc_checks =
  bracketed_host_ok :: "string \<Rightarrow> bool"
  netloc_ok :: "string \<Rightarrow> bool"

text \<open>\<open>s.isascii()\<close>.\<close>

definition isascii :: "string \<Rightarrow> bool" where
  "isascii s = list_all (\<lambda>c. of_char c < (128::nat)) s"

record parse_result =
  scheme :: string
  netloc :: string
  path :: string
  params :: string
  query :: string
  fragment :: string

definition scheme_chars :: "char set" where
  "scheme_chars = set (''abcdefghijklmnopqrstuvwxyz'' @ ''ABCDEFGHIJKLMNOPQRSTUVWXYZ''
     @ ''0123456789'' @ ''+-.'')"

definition ascii_alpha :: "char \<Rightarrow> bool" where
  "ascii_alpha c = (c \<in> set (''abcdefghijklmnopqrstuvwxyz'' @ ''ABCDEFGHIJKLMNOPQRSTUVWXYZ''))"

definition lower_char :: "char \<Rightarrow> char" where
  "lower_char c =
     (if c \<in> set ''ABCDEFGHIJKLMNOPQRSTUVWXYZ'' then char_of (of_char c + (32::nat)) else c)"

text \<open>\<open>s.partition(c)\<close> at the first occurrence of a one-character separator:
  the text before it and the text after it (empty when \<open>c\<close> does not occur).\<close>

definition before :: "char \<Rightarrow> string \<Rightarrow> string" where
  "before c s = takeWhile (\<lambda>x. x \<noteq> c) s"

definition after :: "char \<Rightarrow> string \<Rightarrow> string" where
  "after c s = drop 1 (dropWhile (\<lambda>x. x \<noteq> c) s)"

text \<open>The scheme split of \<open>urlsplit\<close>: the scheme found (or the default) and the rest.\<close>

definition split_scheme :: "string \<Rightarrow> string \<Rightarrow> string \<times> string" where
  "split_scheme dflt url =
     (let pre = before CHR '':'' url in
      if CHR '':'' \<in> set url \<and> pre \<noteq> [] \<and> ascii_alpha (hd url) \<and> set pre \<subseteq> scheme_chars
      then (map lower_char pre, after CHR '':'' url)
      else (dflt, url))"

definition netloc_end :: "char \<Rightarrow> bool" where
  "netloc_end c = (c = CHR ''/'' \<or> c = CHR ''?'' \<or> c = CHR ''#'')"

definition urlsplit :: "netloc_checks \<Rightarrow> string \<Rightarrow> string \<Rightarrow> exn + parse_result" where
  "urlsplit chk url0 dflt =
     (let url1 = dropWhile (\<lambda>c. of_char c \<le> (32::nat)) url0;
          url2 = filter (\<lambda>c. c \<noteq> CHR 0x09 \<and> c \<noteq> CHR 0x0D \<and> c \<noteq> CHR 0x0A) url1;
          (sch, url3) = split_scheme dflt url2;
          has_netloc = (take 2 url3 = ''//'');
          nl = (if has_netloc then takeWhile (\<lambda>c. \<not> netloc_end c) (drop 2 url3) else []);
          url4 = (if has_netloc then dropWhile (\<lambda>c. \<not> netloc_end c) (drop 2 url3) else url3);
          lb = (CHR ''['' \<in> set nl);
          rb = (CHR '']'' \<in> set nl)
      in if has_netloc \<and> ((lb \<and> \<not> rb) \<or> (rb \<and> \<not> lb)) then Inl ValueError
         else if has_netloc \<and> lb \<and> rb
                 \<and> \<not> bracketed_host_ok chk (before CHR '']'' (after CHR ''['' nl))
         then Inl ValueError
         else if \<not> (nl = [] \<or> isascii nl) \<and> \<not> netloc_ok chk nl then Inl ValueError
         else
           let frag = after CHR ''#'' url4;
               url5 = before CHR ''#'' url4;
               qry = after CHR ''?'' url5;
               url6 = before CHR ''?'' url5
           in Inr \<lparr>scheme = sch, netloc = nl, path = url6, params = [],
                   query = qry, fragment = frag\<rparr>)"

definition uses_params :: "string list" where
  "uses_params = ['''', ''ftp'', ''hdl'', ''prospero'', ''http'', ''imap'',
     ''https'', ''shttp'', ''rtsp'', ''rtsps'', ''rtspu'', ''sip'',
     ''sips'', ''mms'', ''sftp'', ''tel'']"

text \<open>\<open>_splitparams\<close>: the first semicolon of the last path segment separates the
  parameters.\<close>

definition last_segment :: "string \<Rightarrow> string" where
  "last_segment p = rev (takeWhile (\<lambda>c. c \<noteq> CHR ''/'') (rev p))"

definition splitparams :: "string \<Rightarrow> string \<times> string" where
  "splitparams url =
     (let seg = last_segment url;
          dir = take (length url - length seg) url
      in if CHR '';'' \<in> set seg
         then (dir @ before CHR '';'' seg, after CHR '';'' seg)
         else (url, []))"

definition urlparse :: "netloc_checks \<Rightarrow> string \<Rightarrow> string \<Rightarrow> exn + parse_result" where
  "urlparse chk url dflt =
     (case urlsplit chk url dflt of
        Inl e \<Rightarrow> Inl e
      | Inr r \<Rightarrow>
          if scheme r \<in> set uses_params \<and> CHR '';'' \<in> set (path r)
          then (let (p, ps) = splitparams (path r) in Inr (r\<lparr>path := p, params := ps\<rparr>))
          else Inr r)"

section \<open>PathPolicy: \<open>is_allowed\<close>\<close>

definition disallowed_paths :: "string list" where
  "disallowed_paths =
     [''/my/en/cms/'', ''/my/en/search'', ''/my/en/news/search'', ''/my/en/news/sp/search'']"

definition is_allowed :: "netloc_checks \<Rightarrow> string \<Rightarrow> exn + bool" where
  "is_allowed chk url =
     (case urlparse chk url [] of
        Inl e \<Rightarrow> Inl e
      | Inr parsed_url \<Rightarrow>
          Inr (\<not> list_ex (\<lambda>disallowed. prefix disallowed (path parsed_url)) disallowed_paths))"

section \<open>Resolving the product link: \<open>urljoin\<close>\<close>

definition uses_relative :: "string list" where
  "uses_relative = ['''', ''ftp'', ''http'', ''gopher'', ''nntp'', ''imap'',
     ''wais'', ''file'', ''https'', ''shttp'', ''mms'',
     ''prospero'', ''rtsp'', ''rtsps'', ''rtspu'', ''sftp'',
     ''svn'', ''svn+ssh'', ''ws'', ''wss'']"

definition uses_netloc :: "string list" where
  "uses_netloc = ['''', ''ftp'', ''http'', ''gopher'', ''nntp'', ''telnet'',
     ''imap'', ''wais'', ''file'', ''mms'', ''https'', ''shttp'',
     ''snews'', ''prospero'', ''rtsp'', ''rtsps'', ''rtspu'', ''rsync'',
     ''svn'', ''svn+ssh'', ''sftp'', ''nfs'', ''git'', ''git+ssh'',
     ''ws'', ''wss'']"

definition urlunparse :: "parse_result \<Rightarrow> string" where
  "urlunparse r =
     (let url1 = (if params r \<noteq> [] then path r @ '';'' @ params r else path r);
          url2 = (if netloc r \<noteq> [] \<or> (scheme r \<noteq> [] \<and> scheme r \<in> set uses_netloc)
                     \<or> take 2 url1 = ''//''
                  then ''//'' @ netloc r
                         @ (if url1 \<noteq> [] \<and> take 1 url1 \<noteq> ''/'' then ''/'' @ url1 else url1)
                  else url1);
          url3 = (if scheme r \<noteq> [] then scheme r @ '':'' @ url2 else url2);
          url4 = (if query r \<noteq> [] then url3 @ ''?'' @ query r else url3)
      in if fragment r \<noteq> [] then url4 @ ''#'' @ fragment r else url4)"

text \<open>The loop of \<open>urljoin\<close> over the path segments: \<open>..\<close> pops the last resolved
  segment (if any), \<open>.\<close> is skipped. The resolved path is kept reversed.\<close>

fun resolve_segments :: "string list \<Rightarrow> string list \<Rightarrow> string list" where
  "resolve_segments resolved [] = rev resolved"
| "resolve_segments resolved (seg # segs) =
     (if seg = ''..'' then resolve_segments (drop 1 resolved) segs
      else if seg = ''.'' then resolve_segments resolved segs
      else resolve_segments (seg # resolved) segs)"

text \<open>\<open>segments[1:-1] = filter(None, segments[1:-1])\<close>: empty segments are dropped,
  except in the first and the last position.\<close>

fun drop_inner_empty :: "string list \<Rightarrow> string list" where
  "drop_inner_empty [] = []"
| "drop_inner_empty [x] = [x]"
| "drop_inner_empty (x # y # ys) = x # filter (\<lambda>s. s \<noteq> []) (butlast (y # ys)) @ [last (y # ys)]"

fun join :: "string \<Rightarrow> string list \<Rightarrow> string" where
  "join sep [] = []"
| "join sep [x] = x"
| "join sep (x # y # ys) = x @ sep @ join sep (y # ys)"

definition join_paths :: "string \<Rightarrow> string \<Rightarrow> string" where
  "join_paths bpath p =
     (let base_parts0 = split bpath ''/'';
          base_parts = (if last base_parts0 \<noteq> [] then butlast base_parts0 else base_parts0);
          segments = (if take 1 p = ''/'' then split p ''/''
                      else drop_inner_empty (base_parts @ split p ''/''));
          resolved0 = resolve_segments [] segments;
          resolved = (if last segments = ''.'' \<or> last segments = ''..''
                      then resolved0 @ [[]] else resolved0);
          joined = join ''/'' resolved
      in if joined = [] then ''/'' else joined)"

text \<open>\<open>urljoin(base, url)\<close>, where \<open>url\<close> is the value of an attribute lookup and so may
  be \<open>None\<close>, as may then be the result.\<close>

definition urljoin :: "netloc_checks \<Rightarrow> string \<Rightarrow> string option \<Rightarrow> exn + string option" where
  "urljoin chk base url_opt =
     (if base = [] then Inr url_opt
      else case url_opt of
        None \<Rightarrow> Inr (Some base)
      | Some url \<Rightarrow>
          if url = [] then Inr (Some base)
          else (case urlparse chk base [] of
            Inl e \<Rightarrow> Inl e
          | Inr b \<Rightarrow>
              (case urlparse chk url (scheme b) of
                 Inl e \<Rightarrow> Inl e
               | Inr u \<Rightarrow>
                   if scheme u \<noteq> scheme b \<or> scheme u \<notin> set uses_relative then Inr (Some url)
                   else if scheme u \<in> set uses_netloc \<and> netloc u \<noteq> []
                   then Inr (Some (urlunparse u))
                   else
                     let nl = (if scheme u \<in> set uses_netloc then netloc b else netloc u) in
                     if path u = [] \<and> params u = []
                     then Inr (Some (urlunparse (u\<lparr>netloc := nl, path := path b,
                            params := params b,
                            query := (if query u = [] then query b else query u)\<rparr>)))
                     else Inr (Some (urlunparse
                            (u\<lparr>netloc := nl, path := join_paths (path b) (path u)\<rparr>))))))"

section \<open>The Python runtime the extractor relies on\<close>

text \<open>
  Python's \<open>float\<close> is an IEEE binary64 number. Its operations are parameters of the
  model, over an arbitrary carrier \<open>'f\<close>, so that every theorem below holds whatever
  the floating-point arithmetic computes:
  \<^item> \<open>float_of_str s\<close> is \<open>float(s)\<close>, \<open>None\<close> when Python raises ValueError;
  \<open>float_of_int\<close> converts the integer operand of \<open>* 100\<close>;
  \<^item> \<open>fsub\<close>, \<open>fdiv\<close>, \<open>fmul\<close> are \<open>-\<close>, \<open>/\<close> and \<open>*\<close>; Python raises
  ZeroDivisionError exactly when the divisor compares equal to zero, \<open>is_zero\<close>;
  \<^item> \<open>round_to x n\<close> is \<open>round(x, n)\<close> and \<open>repr_float x\<close> the text an f-string
  inserts for \<open>{x}\<close>;
  \<^item> \<open>url_checks\<close> are the two validations of \<open>urlsplit\<close> described above.
\<close>

record 'f runtime =
  float_of_str :: "string \<Rightarrow> 'f option"
  float_of_int :: "int \<Rightarrow> 'f"
  is_zero :: "'f \<Rightarrow> bool"
  fsub :: "'f \<Rightarrow> 'f \<Rightarrow> 'f"
  fdiv :: "'f \<Rightarrow> 'f \<Rightarrow> 'f"
  fmul :: "'f \<Rightarrow> 'f \<Rightarrow> 'f"
  round_to :: "'f \<Rightarrow> int \<Rightarrow> 'f"
  repr_float :: "'f \<Rightarrow> string"
  url_checks :: netloc_checks

text \<open>A value stored in a dictionary of the result: Python's \<open>None\<close>, a string or a
  float.\<close>

datatype 'f py_value = PyNone | PyStr string | PyFloat 'f

section \<open>The rendered item card\<close>

text \<open>
  A Selenium \<open>WebElement\<close> as the extractor reads it: its visible text and its
  attributes. \<open>get_attribute\<close> returns \<open>None\<close> for an attribute the element does not
  have.
\<close>

record web_element =
  element_text :: string
  attributes :: "(string \<times> string) list"

definition get_attribute :: "web_element \<Rightarrow> string \<Rightarrow> string option" where
  "get_attribute e name = map_of (attributes e) name"

text \<open>\<open>find_element\<close>: the first match of a selector, NoSuchElementException when there
  is none. \<open>find_elements\<close> returns the list of matches itself.\<close>

definition find_element :: "'e list \<Rightarrow> exn + 'e" where
  "find_element matches = (case matches of [] \<Rightarrow> Inl NoSuchElementException | m # _ \<Rightarrow> Inr m)"

text \<open>The price container, with the matches of the two selectors applied to it.\<close>

record price_element =
  price_original_spans :: "web_element list"
    \<comment> \<open>\<open>.price-original .fr-price-currency span\<close>\<close>
  price_limited_spans :: "web_element list"
    \<comment> \<open>\<open>.price-limited .fr-price-currency span\<close>\<close>

text \<open>An item card (\<open>article.fr-grid-item.w4\<close>): its own attributes and, for each
  selector the extractor applies to it, the elements that match, in document order.\<close>

record product_card =
  card_attributes :: "(string \<times> string) list"
  images :: "web_element list"          \<comment> \<open>\<open>.fr-product-image img\<close>\<close>
  color_tips :: "web_element list"      \<comment> \<open>\<open>.color-tips .color-tip\<close>\<close>
  descriptions :: "web_element list"    \<comment> \<open>\<open>h2.description\<close>\<close>
  sizes :: "web_element list"           \<comment> \<open>\<open>[data-test="product-card-size"]\<close>\<close>
  prices :: "price_element list"        \<comment> \<open>\<open>.fr-product-price\<close>\<close>
  limited_flags :: "web_element list"
    \<comment> \<open>\<open>.fr-status-flag-text[data-test^='limited-offer-from']\<close>\<close>
  status_flags :: "web_element list"    \<comment> \<open>\<open>ul.fr-status-flag li\<close>\<close>
  anchors :: "web_element list"         \<comment> \<open>\<open>a\<close>\<close>

section \<open>ItemExtractor: \<open>extract_product_info\<close>\<close>

text \<open>The dictionary the extractor returns, one field per key.\<close>

record 'f product_info =
  product_id :: string
  title :: string
  image :: "string option"
  color_options :: nat
  size_info :: string
  original_price :: "string option"
  sale_price :: "string option"
  discount :: "'f py_value"
  limited_offer :: "string option"
  additional_info :: "string list"
  product_url :: string

text \<open>Sequencing of steps that may raise: the first exception ends the computation.\<close>

definition and_then :: "exn + 'a \<Rightarrow> ('a \<Rightarrow> exn + 'b) \<Rightarrow> exn + 'b" where
  "and_then m f = (case m of Inl e \<Rightarrow> Inl e | Inr x \<Rightarrow> f x)"

text \<open>\<open>product.get_attribute("data-test").split("product-card-")[-1]\<close>; calling
  \<open>split\<close> on \<open>None\<close> raises AttributeError.\<close>

definition extract_product_id :: "product_card \<Rightarrow> exn + string" where
  "extract_product_id product =
     (case map_of (card_attributes product) ''data-test'' of
        None \<Rightarrow> Inl AttributeError
      | Some s \<Rightarrow> Inr (last (split s ''product-card-'')))"

definition extract_image :: "product_card \<Rightarrow> exn + string option" where
  "extract_image product =
     and_then (find_element (images product)) (\<lambda>img. Inr (get_attribute img ''src''))"

text \<open>\<open>sum(1 for tip in color_tips if "extra" not in tip.get_attribute("class"))\<close>;
  the membership test on \<open>None\<close> raises TypeError.\<close>

fun count_color_options :: "web_element list \<Rightarrow> exn + nat" where
  "count_color_options [] = Inr 0"
| "count_color_options (tip # tips) =
     (case get_attribute tip ''class'' of
        None \<Rightarrow> Inl TypeError
      | Some cls \<Rightarrow>
          and_then (count_color_options tips)
            (\<lambda>n. Inr (if \<not> contains ''extra'' cls then 1 + n else n)))"

definition extract_text :: "web_element list \<Rightarrow> exn + string" where
  "extract_text matches = and_then (find_element matches) (\<lambda>el. Inr (strip (element_text el)))"

text \<open>The text of the last matching currency span of a price fragment, if any.\<close>

definition last_span_text :: "web_element list \<Rightarrow> string option" where
  "last_span_text spans = (if spans \<noteq> [] then Some (strip (element_text (last spans))) else None)"

text \<open>Python truthiness of an optional string: neither \<open>None\<close> nor empty.\<close>

definition truthy :: "string option \<Rightarrow> bool" where
  "truthy v = (case v of None \<Rightarrow> False | Some s \<Rightarrow> s \<noteq> [])"

definition price_to_float :: "'f runtime \<Rightarrow> string \<Rightarrow> 'f option" where
  "price_to_float rt price = float_of_str rt (remove_all ''RM'' (remove_all '','' price))"

text \<open>
  The discount calculation. A ValueError of either conversion is caught by the inner
  handler and leaves the discount at \<open>None\<close>; the division raises ZeroDivisionError,
  which that handler does not catch.
\<close>

definition compute_discount :: "'f runtime \<Rightarrow> string option \<Rightarrow> string option \<Rightarrow> exn + 'f option" where
  "compute_discount rt original sale =
     (if truthy original \<and> truthy sale then
        (case price_to_float rt (the original) of
           None \<Rightarrow> Inr None
         | Some original_price_float \<Rightarrow>
             (case price_to_float rt (the sale) of
                None \<Rightarrow> Inr None
              | Some sale_price_float \<Rightarrow>
                  if is_zero rt original_price_float then Inl ZeroDivisionError
                  else Inr (Some (round_to rt
                         (fmul rt
                            (fdiv rt (fsub rt original_price_float sale_price_float)
                               original_price_float)
                            (float_of_int rt 100))
                         2))))
      else Inr None)"

text \<open>\<open>[info.text.strip() for info in additional_info
  if "limited-offer" not in info.get_attribute("data-test")]\<close>.\<close>

fun extract_additional_info :: "web_element list \<Rightarrow> exn + string list" where
  "extract_additional_info [] = Inr []"
| "extract_additional_info (info # infos) =
     (case get_attribute info ''data-test'' of
        None \<Rightarrow> Inl TypeError
      | Some dt \<Rightarrow>
          and_then (extract_additional_info infos)
            (\<lambda>rest. Inr (if \<not> contains ''limited-offer'' dt
                          then strip (element_text info) # rest else rest)))"

text \<open>
  The body of the \<open>try\<close> block, in the order of the source. It returns \<open>None\<close> for a
  link that \<open>is_allowed\<close> rejects. When \<open>urljoin\<close> yields \<open>None\<close> (empty base and no
  \<open>href\<close>), \<open>is_allowed(None)\<close> raises TypeError.
\<close>

definition try_extract :: "'f runtime \<Rightarrow> product_card \<Rightarrow> string \<Rightarrow> exn + 'f product_info option" where
  "try_extract rt product base_url =
     and_then (extract_product_id product) (\<lambda>pid.
     and_then (extract_image product) (\<lambda>img.
     and_then (count_color_options (color_tips product)) (\<lambda>colors.
     and_then (extract_text (descriptions product)) (\<lambda>ttl.
     and_then (extract_text (sizes product)) (\<lambda>size.
     and_then (find_element (prices product)) (\<lambda>price_element.
       let original = last_span_text (price_original_spans price_element);
           sale0 = last_span_text (price_limited_spans price_element);
           sale = (if \<not> truthy sale0 then None else sale0)
       in
     and_then (compute_discount rt original sale) (\<lambda>disc.
       let limited = (case limited_flags product of [] \<Rightarrow> None
                      | el # _ \<Rightarrow> Some (strip (element_text el)))
       in
     and_then (extract_additional_info (status_flags product)) (\<lambda>additional.
     and_then (find_element (anchors product)) (\<lambda>a.
     and_then (urljoin (url_checks rt) base_url (get_attribute a ''href'')) (\<lambda>joined.
       case joined of
         None \<Rightarrow> Inl TypeError
       | Some url \<Rightarrow>
           and_then (is_allowed (url_checks rt) url) (\<lambda>allowed.
             if \<not> allowed then Inr None
             else Inr (Some \<lparr>product_id = pid, title = ttl, image = img,
                   color_options = colors, size_info = size,
                   original_price = original, sale_price = sale,
                   discount = (case disc of None \<Rightarrow> PyNone
                               | Some d \<Rightarrow> PyStr (repr_float rt d @ ''%'')),
                   limited_offer = limited, additional_info = additional,
                   product_url = url\<rparr>))))))))))))"

text \<open>The function itself: \<open>except Exception\<close> turns every exception of the body into
  the result \<open>None\<close>.\<close>

definition extract_product_info :: "'f runtime \<Rightarrow> product_card \<Rightarrow> string \<Rightarrow> exn + 'f product_info option" where
  "extract_product_info rt product base_url =
     (case try_extract rt product base_url of
        Inl e \<Rightarrow> Inr None
      | Inr result \<Rightarrow> Inr result)"

section \<open>RevealController: \<open>scroll_and_click_load_more\<close>\<close>

text \<open>
  The browser is the environment of the loop. One pass of the loop makes a fixed
  sequence of calls to it, and a \<open>page_pass\<close> records how the page answers them in that
  pass: \<open>None\<close> (for a call without result) or \<open>Inr\<close> when the call returns, the
  exception otherwise. The pauses (\<open>time.sleep\<close>) and the progress messages have no
  effect on the result and are left out.
\<close>

record load_more_button =
  is_displayed_logged :: "exn + bool"   \<comment> \<open>\<open>is_displayed()\<close> inside the message of line 103\<close>
  is_displayed :: "exn + bool"          \<comment> \<open>\<open>is_displayed()\<close> tested on line 105\<close>
  scroll_into_view :: "exn option"
  click :: "exn option"

record page_pass =
  scroll_to_bottom :: "exn option"      \<comment> \<open>\<open>execute_script\<close> of line 90, outside the \<open>try\<close>\<close>
  read_height :: "exn option"           \<comment> \<open>\<open>execute_script\<close> of line 96, outside the \<open>try\<close>\<close>
  wait_for_button :: "exn + load_more_button"
    \<comment> \<open>\<open>WebDriverWait(driver, 10).until(presence_of_element_located(...))\<close>\<close>

datatype loop_control = Break | Continue | Clicked

text \<open>The four \<open>except\<close> clauses: only a stale reference retries.\<close>

definition on_exception :: "exn \<Rightarrow> loop_control" where
  "on_exception e =
     (if e = TimeoutException then Break
      else if e = NoSuchElementException then Break
      else if e = StaleElementReferenceException then Continue
      else Break)"

definition try_click :: "page_pass \<Rightarrow> loop_control" where
  "try_click pass =
     (case wait_for_button pass of
        Inl e \<Rightarrow> on_exception e
      | Inr load_more_button \<Rightarrow>
          (case is_displayed_logged load_more_button of
             Inl e \<Rightarrow> on_exception e
           | Inr _ \<Rightarrow>
               (case is_displayed load_more_button of
                  Inl e \<Rightarrow> on_exception e
                | Inr shown \<Rightarrow>
                    if \<not> shown then Break
                    else (case scroll_into_view load_more_button of
                            Some e \<Rightarrow> on_exception e
                          | None \<Rightarrow>
                              (case click load_more_button of
                                 Some e \<Rightarrow> on_exception e
                               | None \<Rightarrow> Clicked)))))"

text \<open>
  The \<open>while True\<close> loop, in its \<open>i\<close>-th pass with \<open>load_more_count\<close> clicks made so
  far. The loop need not end (a button that stays visible, a reference that stays
  stale), so the function is partial: \<open>None\<close> stands for a run that never returns. The
  Python function returns nothing; the model returns the final value of
  \<open>load_more_count\<close>.
\<close>

partial_function (option) reveal_loop :: "(nat \<Rightarrow> page_pass) \<Rightarrow> nat \<Rightarrow> nat \<Rightarrow> (exn + nat) option" where
  "reveal_loop page i load_more_count =
     (if scroll_to_bottom (page i) \<noteq> None then Some (Inl (the (scroll_to_bottom (page i))))
      else if read_height (page i) \<noteq> None then Some (Inl (the (read_height (page i))))
      else if try_click (page i) = Break then Some (Inr load_more_count)
      else if try_click (page i) = Continue then reveal_loop page (i + 1) load_more_count
      else reveal_loop page (i + 1) (load_more_count + 1))"

definition scroll_and_click_load_more :: "(nat \<Rightarrow> page_pass) \<Rightarrow> (exn + nat) option" where
  "scroll_and_click_load_more page = reveal_loop page 0 0"

section \<open>ScrapeOrchestrator: \<open>scrape_uniqlo_women_tops\<close>\<close>





section \<open>A runtime for evaluating examples\<close>

text \<open>
  To evaluate the extractor on concrete cards, the runtime is instantiated with exact
  decimal arithmetic on rational numbers. It reads plain decimal literals (an optional
  sign, digits, an optional fraction), rounds half to even and prints with one or two
  decimals. On the prices of the examples below every intermediate value is a binary64
  number, so that Python computes the same values and prints them the same way. Both
  validations of the network location pass; no example has a network location that
  would have to be validated.
\<close>

definition is_digit :: "char \<Rightarrow> bool" where
  "is_digit c = (c \<in> set ''0123456789'')"

definition digit_value :: "char \<Rightarrow> nat" where
  "digit_value c = of_char c - 48"

definition nat_of_digits :: "string \<Rightarrow> nat" where
  "nat_of_digits ds = foldl (\<lambda>n c. 10 * n + digit_value c) 0 ds"

definition parse_unsigned :: "string \<Rightarrow> rat option" where
  "parse_unsigned s =
     (let int_part = takeWhile is_digit s;
          rest = dropWhile is_digit s
      in if rest = [] then (if int_part = [] then None else Some (of_nat (nat_of_digits int_part)))
         else if hd rest = CHR ''.'' \<and> list_all is_digit (tl rest)
                 \<and> (int_part \<noteq> [] \<or> tl rest \<noteq> [])
         then Some (of_nat (nat_of_digits int_part)
                + of_nat (nat_of_digits (tl rest)) / 10 ^ length (tl rest))
         else None)"

definition parse_decimal :: "string \<Rightarrow> rat option" where
  "parse_decimal s =
     (case strip s of
        [] \<Rightarrow> None
      | c # cs \<Rightarrow>
          if c = CHR ''-'' then map_option uminus (parse_unsigned cs)
          else if c = CHR ''+'' then parse_unsigned cs
          else parse_unsigned (c # cs))"

definition round_half_even :: "rat \<Rightarrow> int" where
  "round_half_even y =
     (let fl = \<lfloor>y\<rfloor>; d = y - of_int fl
      in if d < 1 / 2 then fl else if 1 / 2 < d then fl + 1
         else if even fl then fl else fl + 1)"

definition round_decimal :: "rat \<Rightarrow> int \<Rightarrow> rat" where
  "round_decimal x ndigits =
     (let s = (if 0 \<le> ndigits then 10 ^ nat ndigits else 1 / 10 ^ nat (- ndigits))
      in of_int (round_half_even (x * s)) / s)"

definition digit_char :: "nat \<Rightarrow> char" where
  "digit_char d = char_of (48 + d)"

function string_of_nat :: "nat \<Rightarrow> string" where
  "string_of_nat n =
     (if n < 10 then [digit_char n] else string_of_nat (n div 10) @ [digit_char (n mod 10)])"
  by pat_completeness auto
termination
  by (relation "measure (\<lambda>n. n)") auto

definition repr_decimal :: "rat \<Rightarrow> string" where
  "repr_decimal x =
     (let hundredths = nat (round_half_even (\<bar>x\<bar> * 100));
          frac = hundredths mod 100
      in (if x < 0 then ''-'' else [])
         @ string_of_nat (hundredths div 100) @ ''.''
         @ (if frac mod 10 = 0 then [digit_char (frac div 10)]
            else [digit_char (frac div 10), digit_char (frac mod 10)]))"

definition decimal_runtime :: "rat runtime" where
  "decimal_runtime =
     \<lparr>float_of_str = parse_decimal, float_of_int = of_int, is_zero = (\<lambda>x. x = 0),
      fsub = (\<lambda>a b. a - b), fdiv = (\<lambda>a b. a / b), fmul = (\<lambda>a b. a * b),
      round_to = round_decimal, repr_float = repr_decimal,
      url_checks = \<lparr>bracketed_host_ok = (\<lambda>h. True), netloc_ok = (\<lambda>nl. True)\<rparr>\<rparr>"

declare reveal_loop.simps [code]

section \<open>Example pages\<close>

text \<open>The page the program scrapes, and an item card as the page renders it: three
  colour swatches, the last one the overflow marker; an original price of RM100.00
  behind a bare currency span, and a limited price of RM75.00.\<close>

definition page_url :: string where
  "page_url = ''https://www.uniqlo.com/my/en/women/tops/tops-collections''"

definition tshirt_card :: product_card where
  "tshirt_card =
     \<lparr>card_attributes = [(''class'', ''fr-grid-item w4''), (''data-test'', ''product-card-E470077-000'')],
      images = [\<lparr>element_text = [], attributes = [(''src'', ''https://image.uniqlo.com/E470077.jpg'')]\<rparr>],
      color_tips =
        [\<lparr>element_text = [], attributes = [(''class'', ''color-tip'')]\<rparr>,
         \<lparr>element_text = [], attributes = [(''class'', ''color-tip'')]\<rparr>,
         \<lparr>element_text = ''+2'', attributes = [(''class'', ''color-tip extra'')]\<rparr>],
      descriptions = [\<lparr>element_text = '' AIRism Cotton T-Shirt '', attributes = [(''class'', ''description'')]\<rparr>],
      sizes = [\<lparr>element_text = ''XS-XXL'', attributes = [(''data-test'', ''product-card-size'')]\<rparr>],
      prices =
        [\<lparr>price_original_spans =
            [\<lparr>element_text = ''RM'', attributes = []\<rparr>,
             \<lparr>element_text = '' RM100.00'', attributes = []\<rparr>],
          price_limited_spans = [\<lparr>element_text = ''RM75.00'', attributes = []\<rparr>]\<rparr>],
      limited_flags =
        [\<lparr>element_text = ''Limited Offer'', attributes = [(''data-test'', ''limited-offer-from'')]\<rparr>],
      status_flags =
        [\<lparr>element_text = ''Limited Offer'', attributes = [(''data-test'', ''limited-offer-from'')]\<rparr>,
         \<lparr>element_text = ''NEW'', attributes = [(''data-test'', ''new'')]\<rparr>],
      anchors =
        [\<lparr>element_text = [],
           attributes = [(''href'', ''https://www.uniqlo.com/my/en/products/E470077-000'')]\<rparr>]\<rparr>"

text \<open>The dictionary the extractor returns for this card.\<close>

definition tshirt_info :: "rat product_info" where
  "tshirt_info =
     \<lparr>product_id = ''E470077-000'', title = ''AIRism Cotton T-Shirt'',
      image = Some ''https://image.uniqlo.com/E470077.jpg'',
      color_options = 2, size_info = ''XS-XXL'',
      original_price = Some ''RM100.00'', sale_price = Some ''RM75.00'',
      discount = PyStr ''25.0%'',
      limited_offer = Some ''Limited Offer'', additional_info = [''NEW''],
      product_url = ''https://www.uniqlo.com/my/en/products/E470077-000''\<rparr>"



definition card_without_price :: product_card where
  "card_without_price = tshirt_card\<lparr>prices := []\<rparr>"

definition card_without_price_spans :: product_card where
  "card_without_price_spans =
     tshirt_card\<lparr>prices := [\<lparr>price_original_spans = [], price_limited_spans = []\<rparr>]\<rparr>"

definition card_blank_sale :: product_card where
  "card_blank_sale =
     tshirt_card\<lparr>prices :=
       [\<lparr>price_original_spans = [\<lparr>element_text = ''RM100.00'', attributes = []\<rparr>],
         price_limited_spans = [\<lparr>element_text = ''  '', attributes = []\<rparr>]\<rparr>]\<rparr>"

definition card_flag_without_data_test :: product_card where
  "card_flag_without_data_test =
     tshirt_card\<lparr>status_flags :=
       [\<lparr>element_text = ''Limited Offer'', attributes = [(''data-test'', ''limited-offer-from'')]\<rparr>,
        \<lparr>element_text = ''NEW'', attributes = [(''class'', ''flag'')]\<rparr>]\<rparr>"


definition card_without_swatches :: product_card where
  "card_without_swatches = tshirt_card\<lparr>color_tips := []\<rparr>"

text \<open>Passes of the reveal loop: the wait for the control times out; the control is
  found but not displayed; the control is displayed and the click goes through.\<close>

definition pass_timeout :: page_pass where
  "pass_timeout =
     \<lparr>scroll_to_bottom = None, read_height = None, wait_for_button = Inl TimeoutException\<rparr>"

definition pass_hidden :: page_pass where
  "pass_hidden =
     \<lparr>scroll_to_bottom = None, read_height = None,
      wait_for_button = Inr \<lparr>is_displayed_logged = Inr False, is_displayed = Inr False,
        scroll_into_view = None, click = None\<rparr>\<rparr>"

definition pass_clicked :: page_pass where
  "pass_clicked =
     \<lparr>scroll_to_bottom = None, read_height = None,
      wait_for_button = Inr \<lparr>is_displayed_logged = Inr True, is_displayed = Inr True,
        scroll_into_view = None, click = None\<rparr>\<rparr>"

definition control_absent :: "nat \<Rightarrow> page_pass" where
  "control_absent i = pass_timeout"

definition control_hidden :: "nat \<Rightarrow> page_pass" where
  "control_hidden i = pass_hidden"

text \<open>A page without load-more control, on which the wait would time out, in a browser
  that fails to run the scroll script.\<close>

definition pass_scroll_fails :: page_pass where
  "pass_scroll_fails = pass_timeout\<lparr>scroll_to_bottom := Some WebDriverException\<rparr>"

definition control_absent_scroll_fails :: "nat \<Rightarrow> page_pass" where
  "control_absent_scroll_fails i = pass_scroll_fails"




section \<open>Sequencing and element lookup\<close>

lemma and_then_Inr_iff: "and_then m f = Inr y \<longleftrightarrow> (\<exists>x. m = Inr x \<and> f x = Inr y)"
  by (cases m) (simp_all add: and_then_def)

lemma and_then_Inl: "and_then (Inl e) f = Inl e"
  by (simp add: and_then_def)

lemma find_element_Nil: "find_element [] = Inl NoSuchElementException"
  by (simp add: find_element_def)

lemma find_element_Inr_iff: "find_element ms = Inr m \<longleftrightarrow> ms \<noteq> [] \<and> m = hd ms"
  by (cases ms) (auto simp add: find_element_def)

section \<open>What a returned record says about the card\<close>

text \<open>When the body of the \<open>try\<close> block returns a record, every step before the
  \<open>return\<close> has gone through, and the record holds the values of the steps.\<close>

lemma try_extract_SomeD:
  assumes "try_extract rt product base_url = Inr (Some info)"
  shows "\<exists>pid img colors ttl size pe disc additional a url.
     extract_product_id product = Inr pid
   \<and> extract_image product = Inr img
   \<and> count_color_options (color_tips product) = Inr colors
   \<and> extract_text (descriptions product) = Inr ttl
   \<and> extract_text (sizes product) = Inr size
   \<and> find_element (prices product) = Inr pe
   \<and> compute_discount rt (last_span_text (price_original_spans pe))
        (if \<not> truthy (last_span_text (price_limited_spans pe)) then None
         else last_span_text (price_limited_spans pe)) = Inr disc
   \<and> extract_additional_info (status_flags product) = Inr additional
   \<and> find_element (anchors product) = Inr a
   \<and> urljoin (url_checks rt) base_url (get_attribute a ''href'') = Inr (Some url)
   \<and> is_allowed (url_checks rt) url = Inr True
   \<and> info = \<lparr>product_id = pid, title = ttl, image = img,
          color_options = colors, size_info = size,
          original_price = last_span_text (price_original_spans pe),
          sale_price = (if \<not> truthy (last_span_text (price_limited_spans pe)) then None
                        else last_span_text (price_limited_spans pe)),
          discount = (case disc of None \<Rightarrow> PyNone
                      | Some d \<Rightarrow> PyStr (repr_float rt d @ ''%'')),
          limited_offer = (case limited_flags product of [] \<Rightarrow> None
                           | el # _ \<Rightarrow> Some (strip (element_text el))),
          additional_info = additional, product_url = url\<rparr>"
  using assms unfolding try_extract_def
  by (fastforce simp add: and_then_Inr_iff Let_def split: option.split_asm if_split_asm)

lemma extract_Some_iff:
  "extract_product_info rt product base_url = Inr (Some info)
     \<longleftrightarrow> try_extract rt product base_url = Inr (Some info)"
  by (simp add: extract_product_info_def split: sum.splits)


lemma extract_None_if:
  assumes "\<And>info. try_extract rt product base_url \<noteq> Inr (Some info)"
  shows "extract_product_info rt product base_url = Inr None"
proof (cases "try_extract rt product base_url")
  case (Inl e)
  then show ?thesis by (simp add: extract_product_info_def)
next
  case (Inr result)
  with assms have "result = None" by (cases result) auto
  with Inr show ?thesis by (simp add: extract_product_info_def)
qed

lemma additional_info_TypeError:
  "info \<in> set infos \<Longrightarrow> get_attribute info ''data-test'' = None
     \<Longrightarrow> extract_additional_info infos = Inl TypeError"
proof (induction infos)
  case Nil
  then show ?case by simp
next
  case (Cons x xs)
  show ?case
  proof (cases "get_attribute x ''data-test''")
    case None
    then show ?thesis by simp
  next
    case (Some dt)
    with Cons.prems have "info \<in> set xs" by auto
    with Cons have "extract_additional_info xs = Inl TypeError" by simp
    with Some show ?thesis by (simp add: and_then_Inl)
  qed
qed

lemma count_color_options_Inr:
  "count_color_options tips = Inr n \<Longrightarrow>
     (\<forall>tip \<in> set tips. get_attribute tip ''class'' \<noteq> None)
     \<and> n = length (filter (\<lambda>tip. \<not> contains ''extra'' (the (get_attribute tip ''class''))) tips)"
proof (induction tips arbitrary: n)
  case Nil
  then show ?case by simp
next
  case (Cons t ts)
  then show ?case
    by (auto simp add: and_then_Inr_iff split: option.split_asm if_split_asm)
qed

lemma count_color_options_total:
  "\<forall>tip \<in> set tips. get_attribute tip ''class'' \<noteq> None \<Longrightarrow>
     count_color_options tips =
       Inr (length (filter (\<lambda>tip. \<not> contains ''extra'' (the (get_attribute tip ''class''))) tips))"
  by (induction tips) (auto simp add: and_then_def)

section \<open>The example cards, evaluated\<close>

lemma tshirt_extracted:
  "extract_product_info decimal_runtime tshirt_card page_url = Inr (Some tshirt_info)"
  by code_simp

lemma without_price_spans_extracted:
  "extract_product_info decimal_runtime card_without_price_spans page_url =
     Inr (Some (tshirt_info\<lparr>original_price := None, sale_price := None, discount := PyNone\<rparr>))"
  by code_simp

lemma blank_sale_extracted:
  "extract_product_info decimal_runtime card_blank_sale page_url =
     Inr (Some (tshirt_info\<lparr>sale_price := None, discount := PyNone\<rparr>))"
  by code_simp

lemma without_swatches_extracted:
  "extract_product_info decimal_runtime card_without_swatches page_url =
     Inr (Some (tshirt_info\<lparr>color_options := 0\<rparr>))"
  by code_simp

section \<open>Item extraction: prices, swatches, flags\<close>

text \<open>
  Claim C7. In a returned record, each price is the trimmed text of the last currency
  span of its fragment, and absent when the fragment has no span; a sale price that is
  empty after trimming is stored as \<open>None\<close>, never as the empty string.
\<close>

theorem price_is_last_span_text:
  assumes "extract_product_info rt product base_url = Inr (Some info)"
  shows "\<exists>price_element. find_element (prices product) = Inr price_element
    \<and> original_price info =
        (if price_original_spans price_element = [] then None
         else Some (strip (element_text (last (price_original_spans price_element)))))
    \<and> sale_price info =
        (if price_limited_spans price_element = [] then None
         else if strip (element_text (last (price_limited_spans price_element))) = [] then None
         else Some (strip (element_text (last (price_limited_spans price_element)))))
    \<and> sale_price info \<noteq> Some []"
proof -
  from assms have "try_extract rt product base_url = Inr (Some info)"
    by (simp add: extract_Some_iff)
  then obtain pe where "find_element (prices product) = Inr pe"
    and "original_price info = last_span_text (price_original_spans pe)"
    and "sale_price info = (if \<not> truthy (last_span_text (price_limited_spans pe)) then None
                        else last_span_text (price_limited_spans pe))"
    using try_extract_SomeD [of rt product base_url info] by auto
  then show ?thesis
    by (auto simp add: last_span_text_def truthy_def)
qed

text \<open>On the example card the original price has two currency spans and the second is
  taken; on the card with a blank limited price the sale price is \<open>None\<close>.\<close>

theorem price_is_last_span_text_witness:
  "extract_product_info decimal_runtime tshirt_card page_url = Inr (Some tshirt_info)
   \<and> original_price tshirt_info = Some ''RM100.00''
   \<and> sale_price tshirt_info = Some ''RM75.00''
   \<and> sale_price (tshirt_info\<lparr>sale_price := None, discount := PyNone\<rparr>) \<noteq> Some []"
  using price_is_last_span_text [OF tshirt_extracted]
    price_is_last_span_text [OF blank_sale_extracted]
  by (simp add: tshirt_extracted tshirt_info_def)

text \<open>
  Claim C8. The count the extractor computes for a card whose swatches all have a
  \<open>class\<close> attribute, as every match of \<open>.color-tip\<close> has, is the number of swatches
  whose class does not contain \<open>extra\<close>. In a returned record \<open>color_options\<close> is
  this number; it is 0 when the card has no swatch.
\<close>

theorem color_options_counts_real_swatches:
  "((\<forall>tip \<in> set (color_tips product). get_attribute tip ''class'' \<noteq> None) \<longrightarrow>
      count_color_options (color_tips product) =
        Inr (length (filter (\<lambda>tip. \<not> contains ''extra'' (the (get_attribute tip ''class'')))
          (color_tips product))))
   \<and> (extract_product_info rt product base_url = Inr (Some info) \<longrightarrow>
      (\<forall>tip \<in> set (color_tips product). get_attribute tip ''class'' \<noteq> None)
    \<and> color_options info =
        length (filter (\<lambda>tip. \<not> contains ''extra'' (the (get_attribute tip ''class'')))
          (color_tips product))
    \<and> (color_tips product = [] \<longrightarrow> color_options info = 0))"
proof -
  have computed: "count_color_options (color_tips product) =
        Inr (length (filter (\<lambda>tip. \<not> contains ''extra'' (the (get_attribute tip ''class'')))
          (color_tips product)))"
    if "\<forall>tip \<in> set (color_tips product). get_attribute tip ''class'' \<noteq> None"
    using that by (rule count_color_options_total)
  have stored: "(\<forall>tip \<in> set (color_tips product). get_attribute tip ''class'' \<noteq> None)
    \<and> color_options info =
        length (filter (\<lambda>tip. \<not> contains ''extra'' (the (get_attribute tip ''class'')))
          (color_tips product))
    \<and> (color_tips product = [] \<longrightarrow> color_options info = 0)"
    if "extract_product_info rt product base_url = Inr (Some info)"
  proof -
    from that have "try_extract rt product base_url = Inr (Some info)"
      by (simp add: extract_Some_iff)
    then have "count_color_options (color_tips product) = Inr (color_options info)"
      using try_extract_SomeD [of rt product base_url info] by auto
    then show ?thesis
      using count_color_options_Inr [of "color_tips product" "color_options info"] by auto
  qed
  from computed stored show ?thesis by blast
qed

text \<open>The example card has three swatches, one of them marked \<open>extra\<close>: the extractor
  counts 2 and returns a record with \<open>color_options = 2\<close>. For the card without
  swatches it counts 0 and returns a record with \<open>color_options = 0\<close>.\<close>

theorem color_options_counts_real_swatches_witness:
  "extract_product_info decimal_runtime tshirt_card page_url = Inr (Some tshirt_info)
   \<and> length (color_tips tshirt_card) = 3
   \<and> length (filter (\<lambda>tip. contains ''extra'' (the (get_attribute tip ''class'')))
         (color_tips tshirt_card)) = 1
   \<and> count_color_options (color_tips tshirt_card) = Inr 2
   \<and> color_options tshirt_info = 2
   \<and> extract_product_info decimal_runtime card_without_swatches page_url
       = Inr (Some (tshirt_info\<lparr>color_options := 0\<rparr>))
   \<and> color_tips card_without_swatches = []
   \<and> count_color_options (color_tips card_without_swatches) = Inr 0
   \<and> color_options (tshirt_info\<lparr>color_options := 0\<rparr>) = 0"
proof -
  have classes: "\<forall>tip \<in> set (color_tips tshirt_card). get_attribute tip ''class'' \<noteq> None"
    by (simp add: tshirt_card_def get_attribute_def)
  have swatches: "length (color_tips tshirt_card) = 3
      \<and> length (filter (\<lambda>tip. contains ''extra'' (the (get_attribute tip ''class'')))
            (color_tips tshirt_card)) = 1
      \<and> length (filter (\<lambda>tip. \<not> contains ''extra'' (the (get_attribute tip ''class'')))
            (color_tips tshirt_card)) = 2"
    by (simp add: tshirt_card_def get_attribute_def)
  have none: "color_tips card_without_swatches = []"
    by (simp add: card_without_swatches_def)
  show ?thesis
    using color_options_counts_real_swatches
        [of tshirt_card decimal_runtime page_url tshirt_info]
      color_options_counts_real_swatches
        [of card_without_swatches decimal_runtime page_url "tshirt_info\<lparr>color_options := 0\<rparr>"]
      classes swatches none tshirt_extracted without_swatches_extracted
    by simp
qed

text \<open>
  Claim C9. A card without a \<open>.fr-product-price\<close> container yields no record: the
  lookup of the container raises and the handler returns \<open>None\<close>.
\<close>

theorem no_price_container_no_record:
  "prices product = [] \<Longrightarrow> extract_product_info rt product base_url = Inr None"
proof (rule extract_None_if)
  fix info
  assume "prices product = []"
  then have "find_element (prices product) = Inl NoSuchElementException"
    by (simp add: find_element_Nil)
  then show "try_extract rt product base_url \<noteq> Inr (Some info)"
    using try_extract_SomeD [of rt product base_url info] by auto
qed

text \<open>The example card without the container is dropped, while the card whose
  container has neither price fragment is kept, with both prices absent.\<close>

theorem no_price_container_no_record_witness:
  "prices card_without_price = []
   \<and> extract_product_info decimal_runtime card_without_price page_url = Inr None
   \<and> extract_product_info decimal_runtime card_without_price_spans page_url =
       Inr (Some (tshirt_info\<lparr>original_price := None, sale_price := None, discount := PyNone\<rparr>))"
  using no_price_container_no_record [of card_without_price decimal_runtime page_url]
  by (simp add: card_without_price_def without_price_spans_extracted)

text \<open>
  Claim C10. If some status flag item of the card has no \<open>data-test\<close> attribute, the
  membership test of the filter raises TypeError on it, and the card yields no record.
\<close>

theorem flag_without_data_test_no_record:
  assumes "info \<in> set (status_flags product)" and "get_attribute info ''data-test'' = None"
  shows "extract_additional_info (status_flags product) = Inl TypeError
     \<and> extract_product_info rt product base_url = Inr None"
proof -
  have te: "extract_additional_info (status_flags product) = Inl TypeError"
    using assms by (rule additional_info_TypeError)
  have "try_extract rt product base_url \<noteq> Inr (Some r)" for r
    using try_extract_SomeD [of rt product base_url r] te by auto
  then have "extract_product_info rt product base_url = Inr None"
    by (rule extract_None_if)
  with te show ?thesis by simp
qed

theorem flag_without_data_test_no_record_witness:
  "\<lparr>element_text = ''NEW'', attributes = [(''class'', ''flag'')]\<rparr>
       \<in> set (status_flags card_flag_without_data_test)
   \<and> get_attribute \<lparr>element_text = ''NEW'', attributes = [(''class'', ''flag'')]\<rparr> ''data-test'' = None
   \<and> extract_additional_info (status_flags card_flag_without_data_test) = Inl TypeError
   \<and> extract_product_info decimal_runtime card_flag_without_data_test page_url = Inr None"
proof -
  have mem: "\<lparr>element_text = ''NEW'', attributes = [(''class'', ''flag'')]\<rparr>
       \<in> set (status_flags card_flag_without_data_test)"
    by (simp add: card_flag_without_data_test_def)
  have none: "get_attribute \<lparr>element_text = ''NEW'', attributes = [(''class'', ''flag'')]\<rparr>
       ''data-test'' = None"
    by (simp add: get_attribute_def)
  show ?thesis
    using mem none
      flag_without_data_test_no_record [OF mem none, of decimal_runtime page_url]
    by simp
qed

section \<open>Item extraction: which cards yield a record\<close>







section \<open>Item extraction: the discount\<close>

text \<open>
  Claim C2, as stated, makes the discount of the record a number, 25.0 for the prices
  RM100.00 and RM75.00. The record of the example card, which has these prices, holds
  the text \<open>25.0%\<close>: the extractor stores \<open>f"{discount}%"\<close>, not the number.
\<close>

theorem discount_not_a_number_counterexample:
  "extract_product_info decimal_runtime tshirt_card page_url = Inr (Some tshirt_info)
   \<and> original_price tshirt_info = Some ''RM100.00''
   \<and> sale_price tshirt_info = Some ''RM75.00''
   \<and> discount tshirt_info = PyStr ''25.0%''
   \<and> discount tshirt_info \<noteq> PyFloat 25"
  by (simp add: tshirt_extracted tshirt_info_def)

text \<open>
  Claim C2, amended. In a returned record the discount is present exactly when the
  original price is a non-empty string, the sale price is present and both convert to
  floats after \<open>,\<close> and \<open>RM\<close> are removed. It is then the text of
  \<open>round((original - sale) / original * 100, 2)\<close> followed by \<open>%\<close>, a string and
  never a number. When the sale price is absent the discount is \<open>None\<close>.
\<close>

theorem discount_is_percent_text:
  assumes "extract_product_info rt product base_url = Inr (Some info)"
  shows "(discount info \<noteq> PyNone \<longleftrightarrow>
           (\<exists>original sale. original_price info = Some original \<and> original \<noteq> []
               \<and> sale_price info = Some sale
               \<and> price_to_float rt original \<noteq> None \<and> price_to_float rt sale \<noteq> None))
    \<and> (\<forall>original sale x y. original_price info = Some original \<and> original \<noteq> []
               \<and> sale_price info = Some sale
               \<and> price_to_float rt original = Some x \<and> price_to_float rt sale = Some y
          \<longrightarrow> discount info =
                PyStr (repr_float rt
                   (round_to rt (fmul rt (fdiv rt (fsub rt x y) x) (float_of_int rt 100)) 2)
                 @ ''%''))
    \<and> (sale_price info = None \<longrightarrow> discount info = PyNone)
    \<and> (\<forall>x. discount info \<noteq> PyFloat x)"
proof -
  from assms have "try_extract rt product base_url = Inr (Some info)"
    by (simp add: extract_Some_iff)
  then obtain disc where
    disc: "compute_discount rt (original_price info) (sale_price info) = Inr disc"
    and field: "discount info =
      (case disc of None \<Rightarrow> PyNone | Some d \<Rightarrow> PyStr (repr_float rt d @ ''%''))"
    and sale: "sale_price info \<noteq> Some []"
    using try_extract_SomeD [of rt product base_url info]
    by (auto simp add: truthy_def split: if_split_asm option.split_asm)
  from disc field sale show ?thesis
    by (cases "original_price info"; cases "sale_price info")
       (auto simp add: compute_discount_def truthy_def split: option.split_asm if_split_asm)
qed

text \<open>The example card has the prices RM100.00 and RM75.00 and the discount
  \<open>25.0%\<close>; the card whose limited price is blank has no sale price and no discount.\<close>

theorem discount_is_percent_text_witness:
  "extract_product_info decimal_runtime tshirt_card page_url = Inr (Some tshirt_info)
   \<and> price_to_float decimal_runtime ''RM100.00'' = Some 100
   \<and> price_to_float decimal_runtime ''RM75.00'' = Some 75
   \<and> discount tshirt_info = PyStr ''25.0%''
   \<and> sale_price (tshirt_info\<lparr>sale_price := None, discount := PyNone\<rparr>) = None
   \<and> discount (tshirt_info\<lparr>sale_price := None, discount := PyNone\<rparr>) = PyNone"
proof -
  have a: "price_to_float decimal_runtime ''RM100.00'' = Some 100" by code_simp
  have b: "price_to_float decimal_runtime ''RM75.00'' = Some 75" by code_simp
  show ?thesis
    using discount_is_percent_text [OF tshirt_extracted]
      discount_is_percent_text [OF blank_sale_extracted] a b
    by (simp add: tshirt_extracted tshirt_info_def)
qed

section \<open>Item extraction: errors stay inside the item\<close>




section \<open>PathPolicy\<close>

lemma split_scheme_rest: "set (snd (split_scheme dflt url)) \<subseteq> set url"
  by (auto simp add: split_scheme_def Let_def after_def dest: in_set_dropD set_dropWhileD)

lemma urlsplit_raises_ValueError: "urlsplit chk url dflt = Inl e \<Longrightarrow> e = ValueError"
  by (auto simp add: urlsplit_def Let_def split: prod.split_asm if_split_asm)

text \<open>The network location is cut out of the URL, so an ASCII URL without square
  brackets has an ASCII network location without brackets: neither validation is
  called for, and \<open>urlsplit\<close> accepts the URL.\<close>

lemma urlsplit_ascii_without_brackets:
  assumes "isascii url" and "CHR ''['' \<notin> set url" and "CHR '']'' \<notin> set url"
  shows "\<exists>r. urlsplit chk url dflt = Inr r"
proof -
  let ?url2 = "filter (\<lambda>c. c \<noteq> CHR 0x09 \<and> c \<noteq> CHR 0x0D \<and> c \<noteq> CHR 0x0A)
       (dropWhile (\<lambda>c. of_char c \<le> (32::nat)) url)"
  obtain sch url3 where ss: "split_scheme dflt ?url2 = (sch, url3)"
    by (cases "split_scheme dflt ?url2") blast
  have "set ?url2 \<subseteq> set url"
    by (auto dest: set_dropWhileD)
  moreover have "set url3 \<subseteq> set ?url2"
    using split_scheme_rest [of dflt ?url2] ss by simp
  ultimately have "set (takeWhile (\<lambda>c. \<not> netloc_end c) (drop 2 url3)) \<subseteq> set url"
    by (auto dest!: set_takeWhileD in_set_dropD)
  with assms have
    "CHR ''['' \<notin> set (takeWhile (\<lambda>c. \<not> netloc_end c) (drop 2 url3))"
    "CHR '']'' \<notin> set (takeWhile (\<lambda>c. \<not> netloc_end c) (drop 2 url3))"
    "isascii (takeWhile (\<lambda>c. \<not> netloc_end c) (drop 2 url3))"
    by (auto simp add: isascii_def list_all_iff)
  with ss show ?thesis
    by (simp add: urlsplit_def Let_def isascii_def)
qed

lemma urlparse_raises_ValueError: "urlparse chk url dflt = Inl e \<Longrightarrow> e = ValueError"
  by (auto simp add: urlparse_def Let_def dest: urlsplit_raises_ValueError
      split: sum.split_asm prod.split_asm if_split_asm)

lemma urlparse_ascii_without_brackets:
  assumes "isascii url" and "CHR ''['' \<notin> set url" and "CHR '']'' \<notin> set url"
  shows "\<exists>r. urlparse chk url dflt = Inr r"
proof -
  obtain r where "urlsplit chk url dflt = Inr r"
    using urlsplit_ascii_without_brackets [OF assms] by blast
  then show ?thesis
    by (simp add: urlparse_def Let_def split: prod.split)
qed

lemma cms_parsed:
  "urlparse (url_checks decimal_runtime) ''/my/en/cms/x'' [] =
     Inr \<lparr>scheme = [], netloc = [], path = ''/my/en/cms/x'', params = [], query = [],
          fragment = []\<rparr>"
  by code_simp

lemma tops_parsed:
  "urlparse (url_checks decimal_runtime) ''/my/en/women/tops'' [] =
     Inr \<lparr>scheme = [], netloc = [], path = ''/my/en/women/tops'', params = [], query = [],
          fragment = []\<rparr>"
  by code_simp

lemma unmatched_bracket_rejected:
  "urlparse (url_checks decimal_runtime) ''http://['' [] = Inl ValueError"
  by code_simp

lemma page_url_parsed:
  "urlparse (url_checks decimal_runtime) page_url [] =
     Inr \<lparr>scheme = ''https'', netloc = ''www.uniqlo.com'',
          path = ''/my/en/women/tops/tops-collections'', params = [], query = [],
          fragment = []\<rparr>"
  by code_simp

lemma search_url_parsed:
  "urlparse (url_checks decimal_runtime) ''https://www.uniqlo.com/my/en/search?q=shirt'' [] =
     Inr \<lparr>scheme = ''https'', netloc = ''www.uniqlo.com'', path = ''/my/en/search'',
          params = [], query = ''q=shirt'', fragment = []\<rparr>"
  by code_simp

text \<open>A URL without square brackets is rejected as well when its network location is
  not ASCII and \<open>_checknetloc\<close> rejects it, as CPython does for a host with U+2100.\<close>

lemma rejected_netloc_raises:
  assumes "\<forall>c \<in> set host. c \<notin> set ''/?#[]'' \<and> c \<noteq> CHR 0x09 \<and> c \<noteq> CHR 0x0D \<and> c \<noteq> CHR 0x0A"
    and "\<not> isascii host" and "\<not> netloc_ok chk host"
  shows "is_allowed chk (''http://'' @ host @ ''/my/en/women/tops'') = Inl ValueError"
proof -
  have unchanged: "filter (\<lambda>c. c \<noteq> CHR 0x09 \<and> c \<noteq> CHR 0x0D \<and> c \<noteq> CHR 0x0A) host = host"
    using assms(1) by (simp add: filter_id_conv)
  have cut: "takeWhile (\<lambda>c. \<not> netloc_end c) (host @ ''/my/en/women/tops'') = host"
    using assms(1) by (subst takeWhile_append2) (auto simp add: netloc_end_def)
  have nonempty: "host \<noteq> []"
    using assms(2) by (auto simp add: isascii_def)
  have no_brackets: "CHR ''['' \<notin> set host" "CHR '']'' \<notin> set host"
    using assms(1) by auto
  show ?thesis
    using unchanged cut nonempty no_brackets assms(2,3)
    by (simp add: is_allowed_def urlparse_def urlsplit_def split_scheme_def before_def after_def
        scheme_chars_def ascii_alpha_def Let_def)
qed

text \<open>
  Claim C4, as stated, makes \<open>is_allowed\<close> a total function that returns true for
  every URL it does not disallow. For the URL \<open>http://[\<close>, whose network location has
  an opening bracket without a closing one, \<open>urlparse\<close> raises ValueError before any
  path is compared, and \<open>is_allowed\<close> raises with it.
\<close>

theorem is_allowed_raises_counterexample:
  "is_allowed (url_checks decimal_runtime) ''http://['' = Inl ValueError"
  by code_simp

text \<open>
  Claim C4, amended. Whenever \<open>urlparse\<close> accepts the URL, which it does for every URL
  of ASCII characters without square brackets, \<open>is_allowed\<close> returns false if the
  parsed path starts with one of the four disallowed prefixes and true otherwise. When
  \<open>urlparse\<close> rejects the URL, \<open>is_allowed\<close> raises ValueError.
\<close>

theorem is_allowed_by_parsed_path:
  "(isascii url \<and> CHR ''['' \<notin> set url \<and> CHR '']'' \<notin> set url
      \<longrightarrow> (\<exists>b. is_allowed chk url = Inr b))
   \<and> (\<forall>parsed_url. urlparse chk url [] = Inr parsed_url \<longrightarrow>
         is_allowed chk url = Inr (\<not> (\<exists>disallowed \<in> set disallowed_paths.
                                        prefix disallowed (path parsed_url))))
   \<and> (\<forall>e. urlparse chk url [] = Inl e \<longrightarrow> is_allowed chk url = Inl ValueError)"
proof -
  have "\<exists>b. is_allowed chk url = Inr b"
    if plain: "isascii url" "CHR ''['' \<notin> set url" "CHR '']'' \<notin> set url"
  proof -
    obtain r where "urlparse chk url [] = Inr r"
      using urlparse_ascii_without_brackets [OF plain] by blast
    then show ?thesis by (simp add: is_allowed_def)
  qed
  moreover have "is_allowed chk url = Inl ValueError" if "urlparse chk url [] = Inl e" for e
    using that urlparse_raises_ValueError [OF that] by (simp add: is_allowed_def)
  ultimately show ?thesis
    by (auto simp add: is_allowed_def list_ex_iff)
qed

text \<open>The path \<open>/my/en/cms/x\<close> is disallowed and \<open>/my/en/women/tops\<close> is allowed.
  Of two full URLs of the site, the page the program scrapes is allowed and its search
  page, whose parsed path is \<open>/my/en/search\<close>, is disallowed. \<open>http://[\<close> is rejected
  by \<open>urlparse\<close>.\<close>

theorem is_allowed_by_parsed_path_witness:
  "is_allowed (url_checks decimal_runtime) ''/my/en/cms/x'' = Inr False
   \<and> is_allowed (url_checks decimal_runtime) ''/my/en/women/tops'' = Inr True
   \<and> isascii page_url \<and> CHR ''['' \<notin> set page_url \<and> CHR '']'' \<notin> set page_url
   \<and> is_allowed (url_checks decimal_runtime) page_url = Inr True
   \<and> is_allowed (url_checks decimal_runtime) ''https://www.uniqlo.com/my/en/search?q=shirt''
       = Inr False
   \<and> urlparse (url_checks decimal_runtime) ''http://['' [] = Inl ValueError
   \<and> is_allowed (url_checks decimal_runtime) ''http://['' = Inl ValueError"
proof -
  have plain: "isascii page_url \<and> CHR ''['' \<notin> set page_url \<and> CHR '']'' \<notin> set page_url"
    by code_simp
  show ?thesis
    using is_allowed_by_parsed_path [of "''/my/en/cms/x''" "url_checks decimal_runtime"]
      is_allowed_by_parsed_path [of "''/my/en/women/tops''" "url_checks decimal_runtime"]
      is_allowed_by_parsed_path [of page_url "url_checks decimal_runtime"]
      is_allowed_by_parsed_path [of "''https://www.uniqlo.com/my/en/search?q=shirt''"
        "url_checks decimal_runtime"]
      is_allowed_by_parsed_path [of "''http://[''" "url_checks decimal_runtime"]
      unmatched_bracket_rejected plain
    by (simp add: cms_parsed tops_parsed page_url_parsed search_url_parsed disallowed_paths_def)
qed

section \<open>RevealController\<close>

text \<open>
  Claim C5, as stated, lets the loop end as a normal completion whenever the load-more
  control never becomes visible. The two \<open>execute_script\<close> calls at the head of each
  pass are outside the \<open>try\<close> block. On the page below the control is absent in
  every pass, so that the wait would time out, but the scroll script raises
  WebDriverException: the loop ends by raising that exception to its caller.
\<close>

theorem reveal_raises_when_scroll_fails_counterexample:
  "wait_for_button pass_scroll_fails = Inl TimeoutException
   \<and> scroll_and_click_load_more control_absent_scroll_fails = Some (Inl WebDriverException)"
  by code_simp

text \<open>
  Claim C5, amended. If in every pass the two page scripts at the head of the loop run
  without error and the load-more control either is not found before the wait times
  out or is found but not displayed, the loop returns, after no click, and without
  raising to its caller.
\<close>

theorem reveal_ends_when_control_never_visible:
  assumes "\<forall>i. scroll_to_bottom (page i) = None \<and> read_height (page i) = None"
    and "\<forall>i. wait_for_button (page i) = Inl TimeoutException
           \<or> (\<exists>button. wait_for_button (page i) = Inr button
                 \<and> is_displayed_logged button = Inr False \<and> is_displayed button = Inr False)"
  shows "scroll_and_click_load_more page = Some (Inr 0)"
proof -
  from assms(2) have "try_click (page 0) = Break"
    by (auto simp add: try_click_def on_exception_def dest: spec [of _ 0])
  with assms(1) show ?thesis
    unfolding scroll_and_click_load_more_def
    by (subst reveal_loop.simps) simp
qed

text \<open>Both cases occur: a page on which the wait always times out, and a page on which
  the control is always found and never displayed.\<close>

theorem reveal_ends_when_control_never_visible_witness:
  "(\<forall>i. scroll_to_bottom (control_absent i) = None \<and> read_height (control_absent i) = None)
   \<and> (\<forall>i. wait_for_button (control_absent i) = Inl TimeoutException)
   \<and> scroll_and_click_load_more control_absent = Some (Inr 0)
   \<and> (\<forall>i. wait_for_button (control_hidden i) =
         Inr \<lparr>is_displayed_logged = Inr False, is_displayed = Inr False,
              scroll_into_view = None, click = None\<rparr>)
   \<and> scroll_and_click_load_more control_hidden = Some (Inr 0)"
  using reveal_ends_when_control_never_visible [of control_absent]
    reveal_ends_when_control_never_visible [of control_hidden]
  by (simp add: control_absent_def pass_timeout_def control_hidden_def pass_hidden_def)

section \<open>ScrapeOrchestrator\<close>





end
